theory Spec2Isabelle
  imports Main "HOL-Library.Multiset"
begin

section \<open>Data model\<close>

text \<open>
  The declarations of \<^verbatim>\<open>types.ts\<close> are not part of the sources at hand; the records
  below carry the fields that the object literals and the field accesses of
  \<^verbatim>\<open>inventoryService.ts\<close>, \<^verbatim>\<open>App\<close>, \<^verbatim>\<open>Reconciliation\<close> and \<^verbatim>\<open>Scanner\<close> use.
  The optional properties \<^verbatim>\<open>reason\<close>, \<^verbatim>\<open>lastAction\<close> and \<^verbatim>\<open>endTime\<close> are options,
  \<open>None\<close> standing for an absent or \<^verbatim>\<open>undefined\<close> property; \<^verbatim>\<open>manualCount\<close> has a type of
  its own.
\<close>

datatype ProductType = PHONE | PAD

datatype CountMethod = SCAN | QUANTITY

datatype TaskStatus = PENDING | IN_PROGRESS | COMPLETED

datatype DiscrepancyType = SHORTAGE | OVERAGE

subsection \<open>Numbers\<close>

text \<open>
  A JavaScript number is a double. The counts of the source are integers or not finite:
  \<open>Num n\<close> is the finite number with the integer value \<open>n\<close>. \<open>to_double\<close> rounds an integer to
  the nearest double (ties to even) and overflows to an infinity, so every operation
  below returns only values that a double holds. Negative zero is not distinguished
  from zero. Prices are the integers of the catalogue table and stay of type \<open>int\<close>.
\<close>

datatype js_number = Num int | PosInfinity | NegInfinity | NaN

function bit_length :: "int \<Rightarrow> nat" where
  "bit_length n = (if n \<le> 0 then 0 else Suc (bit_length (n div 2)))"
  by pat_completeness auto
termination
  by (relation "measure nat") auto

declare bit_length.simps [simp del]

definition round_to_double :: "int \<Rightarrow> int" where
  "round_to_double a =
     (if a < 2 ^ 53 then a
      else
        let e = bit_length a - 53;
            q = a div 2 ^ e;
            r = a mod 2 ^ e;
            half = 2 ^ (e - 1);
            q = (if half < r \<or> (r = half \<and> odd q) then q + 1 else q)
        in q * 2 ^ e)"

definition to_double :: "int \<Rightarrow> js_number" where
  "to_double n =
     (let m = round_to_double \<bar>n\<bar> in
      if 2 ^ 1024 \<le> m then (if n < 0 then NegInfinity else PosInfinity)
      else Num (if n < 0 then - m else m))"

fun js_neg :: "js_number \<Rightarrow> js_number" where
  "js_neg (Num a) = Num (- a)"
| "js_neg PosInfinity = NegInfinity"
| "js_neg NegInfinity = PosInfinity"
| "js_neg NaN = NaN"

fun js_add :: "js_number \<Rightarrow> js_number \<Rightarrow> js_number" where
  "js_add (Num a) (Num b) = to_double (a + b)"
| "js_add NaN _ = NaN"
| "js_add _ NaN = NaN"
| "js_add PosInfinity NegInfinity = NaN"
| "js_add NegInfinity PosInfinity = NaN"
| "js_add PosInfinity _ = PosInfinity"
| "js_add _ PosInfinity = PosInfinity"
| "js_add NegInfinity _ = NegInfinity"
| "js_add _ NegInfinity = NegInfinity"

definition js_sub :: "js_number \<Rightarrow> js_number \<Rightarrow> js_number" where
  "js_sub a b = js_add a (js_neg b)"

fun js_less :: "js_number \<Rightarrow> js_number \<Rightarrow> bool" where
  "js_less (Num a) (Num b) = (a < b)"
| "js_less NaN _ = False"
| "js_less _ NaN = False"
| "js_less NegInfinity NegInfinity = False"
| "js_less NegInfinity _ = True"
| "js_less PosInfinity _ = False"
| "js_less _ PosInfinity = True"
| "js_less _ NegInfinity = False"

definition js_le :: "js_number \<Rightarrow> js_number \<Rightarrow> bool" where
  "js_le a b = (js_less a b \<or> (a = b \<and> a \<noteq> NaN))"

text \<open>
  The property \<^verbatim>\<open>manualCount\<close> of an item is absent (or \<^verbatim>\<open>undefined\<close>), \<^verbatim>\<open>null\<close> (after
  a reload, see below) or a number. In a JSON text it is absent, \<^verbatim>\<open>null\<close> or a numeral.
\<close>

datatype ManualCount = Undefined | Null | Count js_number

datatype JsonCount = JAbsent | JNull | JNumber int

record 'count ProductFields =
  sku :: string
  name :: string
  ptype :: ProductType
  price :: int
  imei :: string
  lastCounted :: string
  priority :: string
  countMethod :: CountMethod
  imageUrl :: string
  manualCount :: 'count

type_synonym Product = "ManualCount ProductFields"

type_synonym ProductJson = "JsonCount ProductFields"

text \<open>
  A \<^verbatim>\<open>DiscrepancyReason\<close> is a string at run time: \<^verbatim>\<open>handleReasonChange\<close> stores the value of a
  \<^verbatim>\<open>select\<close> element, the empty string of the placeholder option included. The members of
  the enumeration are declared in \<^verbatim>\<open>types.ts\<close>; their string values are parameters here.
\<close>

record DiscrepancyReason =
  SALES_FLOW :: string
  TRANSFER_OUT :: string
  RETURN_WAREHOUSE :: string
  OTHER :: string

record Discrepancy =
  d_imei :: string
  d_sku :: string
  d_name :: string
  d_type :: DiscrepancyType
  d_price :: int
  autoResolved :: bool
  reason :: "string option"

record LastAction =
  la_name :: string
  la_time :: string
  la_code :: string

subsection \<open>The JavaScript \<^verbatim>\<open>Set\<close>\<close>

text \<open>
  A \<^verbatim>\<open>Set\<close> holds a value at most once and iterates in insertion order: it is the list of
  its elements in insertion order, without duplicates.
\<close>

typedef 'a js_set = "{xs :: 'a list. distinct xs}"
  morphisms elements JsSet
  by (rule exI[of _ "[]"]) simp

setup_lifting type_definition_js_set

lift_definition Set_empty :: "'a js_set" is "[]"
  by simp

lift_definition Set_has :: "'a js_set \<Rightarrow> 'a \<Rightarrow> bool" is "\<lambda>xs x. x \<in> set xs" .

lift_definition Set_add :: "'a js_set \<Rightarrow> 'a \<Rightarrow> 'a js_set" is
  "\<lambda>xs x. if x \<in> set xs then xs else xs @ [x]"
  by simp

lift_definition Set_delete :: "'a js_set \<Rightarrow> 'a \<Rightarrow> 'a js_set" is "\<lambda>xs x. remove1 x xs"
  by simp

lift_definition Set_size :: "'a js_set \<Rightarrow> nat" is length .

text \<open>\<^verbatim>\<open>new Set(iterable)\<close> adds the values one by one; \<^verbatim>\<open>Array.from(set)\<close> lists them.\<close>

definition new_Set :: "'a list \<Rightarrow> 'a js_set" where
  "new_Set xs = foldl Set_add Set_empty xs"

definition Array_from :: "'a js_set \<Rightarrow> 'a list" where
  "Array_from s = elements s"

text \<open>
  The task object. In memory \<^verbatim>\<open>scannedImeis\<close> is a \<^verbatim>\<open>Set\<close> and a count is a number; in the
  JSON text of the store \<^verbatim>\<open>scannedImeis\<close> is an array and a count is a numeral or \<^verbatim>\<open>null\<close>.
  The record is polymorphic in these two places.
\<close>

record ('set, 'count) InventoryTask =
  task_id :: string
  date :: string
  items :: "'count ProductFields list"
  status :: TaskStatus
  scannedImeis :: 'set
  discrepancies :: "Discrepancy list"
  lastAction :: "LastAction option"
  endTime :: "string option"

type_synonym Task = "(string js_set, ManualCount) InventoryTask"

type_synonym TaskJson = "(string list, JsonCount) InventoryTask"

section \<open>\<^verbatim>\<open>parseInt\<close>\<close>

text \<open>
  \<^verbatim>\<open>parseInt(string)\<close> without a radix, after ECMAScript: leading white space is dropped,
  then an optional sign, then \<^verbatim>\<open>0x\<close> or \<^verbatim>\<open>0X\<close> selects radix 16, and the longest prefix of
  digits of the radix is read. The result is a number: \<^verbatim>\<open>NaN\<close> without a digit, else the
  value of the digits as a double (rounded beyond \<open>2^53\<close>, an infinity on overflow).
  Strings are byte strings here, so only the ASCII white space characters are recognised.
\<close>

definition is_whitespace :: "char \<Rightarrow> bool" where
  "is_whitespace c = (c \<in> set [CHR 0x09, CHR 0x0A, CHR 0x0B, CHR 0x0C, CHR 0x0D, CHR '' ''])"

definition digit_value :: "char \<Rightarrow> nat option" where
  "digit_value c =
     (let n = (of_char c :: nat) in
      if 48 \<le> n \<and> n \<le> 57 then Some (n - 48)
      else if 97 \<le> n \<and> n \<le> 122 then Some (n - 87)
      else if 65 \<le> n \<and> n \<le> 90 then Some (n - 55)
      else None)"

definition radix_digit :: "nat \<Rightarrow> char \<Rightarrow> bool" where
  "radix_digit R c = (case digit_value c of Some v \<Rightarrow> v < R | None \<Rightarrow> False)"

definition parseInt :: "string \<Rightarrow> js_number" where
  "parseInt str =
     (let S = dropWhile is_whitespace str;
          sign = (if S \<noteq> [] \<and> hd S = CHR ''-'' then - 1 else (1::int));
          S = (if S \<noteq> [] \<and> (hd S = CHR ''+'' \<or> hd S = CHR ''-'') then tl S else S);
          hex = (take 2 S = ''0x'' \<or> take 2 S = ''0X'');
          R = (if hex then 16 else (10::nat));
          S = (if hex then drop 2 S else S);
          Z = takeWhile (radix_digit R) S
      in if Z = [] then NaN
         else to_double (sign * foldl (\<lambda>a c. a * int R + int (the (digit_value c))) 0 Z))"

section \<open>\<^verbatim>\<open>inventoryService.ts\<close>\<close>

text \<open>
  \<^verbatim>\<open>getProductByImei\<close> searches the module's product table \<^verbatim>\<open>MOCK_PRODUCTS\<close>; the table is the
  first argument here, so that every statement holds for any catalogue.
\<close>

definition getProductByImei :: "Product list \<Rightarrow> string \<Rightarrow> Product option" where
  "getProductByImei MOCK_PRODUCTS i = List.find (\<lambda>p. imei p = i) MOCK_PRODUCTS"

text \<open>
  \<^verbatim>\<open>imei.slice(-1)\<close> is the last character, or the empty string. Nothing in the \<^verbatim>\<open>try\<close> block
  of \<^verbatim>\<open>checkDynamicStatus\<close> throws on a string, so its \<^verbatim>\<open>catch\<close> has no branch here.
\<close>

definition slice_last :: "string \<Rightarrow> string" where
  "slice_last s = (if s = [] then [] else [last s])"

definition checkDynamicStatus :: "DiscrepancyReason \<Rightarrow> string \<Rightarrow> string option" where
  "checkDynamicStatus E i =
     (let lastDigit = parseInt (slice_last i) in
      if lastDigit = Num 0 then Some (SALES_FLOW E)
      else if lastDigit = Num 1 then Some (TRANSFER_OUT E)
      else if lastDigit = Num 2 then Some (RETURN_WAREHOUSE E)
      else None)"

section \<open>\<^verbatim>\<open>Reconciliation\<close>\<close>

subsection \<open>Discrepancy calculation (the initialiser of the component's state)\<close>

definition shortage_record :: "Product \<Rightarrow> Discrepancy" where
  "shortage_record item =
     \<lparr>d_imei = imei item, d_sku = sku item, d_name = name item, d_type = SHORTAGE,
      d_price = price item, autoResolved = False, reason = None\<rparr>"

definition overage_record :: "Product list \<Rightarrow> string \<Rightarrow> Discrepancy" where
  "overage_record db i =
     (let globalProduct = getProductByImei db i in
      \<lparr>d_imei = i,
       d_sku = (case globalProduct of Some p \<Rightarrow> sku p | None \<Rightarrow> ''UNKNOWN''),
       d_name = (case globalProduct of Some p \<Rightarrow> name p | None \<Rightarrow> ''Unlisted Item''),
       d_type = OVERAGE,
       d_price = (case globalProduct of Some p \<Rightarrow> price p | None \<Rightarrow> 0),
       autoResolved = False, reason = None\<rparr>)"

text \<open>
  The two \<^verbatim>\<open>forEach\<close> loops push onto one array \<^verbatim>\<open>diffs\<close>: first over \<^verbatim>\<open>task.items\<close>, then over
  \<^verbatim>\<open>task.scannedImeis\<close> in insertion order.
\<close>

definition push_shortage :: "Task \<Rightarrow> Discrepancy list \<Rightarrow> Product \<Rightarrow> Discrepancy list" where
  "push_shortage task diffs item =
     (if \<not> Set_has (scannedImeis task) (imei item) then diffs @ [shortage_record item]
      else diffs)"

definition push_overage ::
  "Product list \<Rightarrow> Task \<Rightarrow> Discrepancy list \<Rightarrow> string \<Rightarrow> Discrepancy list" where
  "push_overage db task diffs i =
     (if List.find (\<lambda>it. imei it = i) (items task) = None then diffs @ [overage_record db i]
      else diffs)"

definition initialDiscrepancies :: "Product list \<Rightarrow> Task \<Rightarrow> Discrepancy list" where
  "initialDiscrepancies db task =
     (if length (discrepancies task) > 0 then discrepancies task
      else
        let diffs = foldl (push_shortage task) [] (items task);
            diffs = foldl (push_overage db task) diffs (Array_from (scannedImeis task))
        in diffs)"

subsection \<open>Automatic reconciliation (\<^verbatim>\<open>handleDynamicCheck\<close>)\<close>

text \<open>
  \<^verbatim>\<open>!d.reason\<close> holds for an absent reason and for the empty string. The test
  \<^verbatim>\<open>!d.autoResolved && !d.reason\<close> stands in \<^verbatim>\<open>handleDynamicCheck\<close>, \<^verbatim>\<open>handleSubmit\<close> and
  \<^verbatim>\<open>pendingIssues\<close>.
\<close>

definition truthy :: "string option \<Rightarrow> bool" where
  "truthy r = (case r of None \<Rightarrow> False | Some s \<Rightarrow> s \<noteq> [])"

definition unresolved :: "Discrepancy \<Rightarrow> bool" where
  "unresolved d = (\<not> autoResolved d \<and> \<not> truthy (reason d))"

text \<open>
  The callback of \<^verbatim>\<open>discrepancies.map\<close>, with the oracle as an argument
  (\<^verbatim>\<open>checkDynamicStatus\<close> in the source). Beside the updated entries the model keeps the log
  of the identifiers the oracle was asked about, in order.
\<close>

definition check_entry ::
  "(string \<Rightarrow> string option) \<Rightarrow> Discrepancy list \<times> string list \<Rightarrow> Discrepancy \<Rightarrow>
   Discrepancy list \<times> string list" where
  "check_entry oracle acc d =
     (let (updated, asked) = acc in
      if unresolved d then
        (let detectedReason = oracle (d_imei d); asked = asked @ [d_imei d] in
         if truthy detectedReason
         then (updated @ [d\<lparr>autoResolved := True, reason := detectedReason\<rparr>], asked)
         else (updated @ [d], asked))
      else (updated @ [d], asked))"

definition check_entries ::
  "(string \<Rightarrow> string option) \<Rightarrow> Discrepancy list \<Rightarrow> Discrepancy list \<times> string list" where
  "check_entries oracle ds = foldl (check_entry oracle) ([], []) ds"

text \<open>
  The state of the component: the list \<^verbatim>\<open>discrepancies\<close>, the flag \<^verbatim>\<open>simulating\<close>, and the
  timers that \<^verbatim>\<open>setTimeout\<close> has started and that have not fired yet. A timer's callback is
  a closure over the list \<^verbatim>\<open>discrepancies\<close> of the render in which the button was pressed;
  the timer is represented by that list.
\<close>

record ReconciliationState =
  r_discrepancies :: "Discrepancy list"
  simulating :: bool
  timeouts :: "Discrepancy list list"

text \<open>
  \<^verbatim>\<open>handleDynamicCheck\<close> sets the flag and starts the timer of 1200 ms. When the timer fires
  (\<open>dynamicCheckTimeout\<close>), its callback maps the list it captured and replaces the state
  by the result, whatever the state has become in the meantime. Timers of equal delay
  fire in the order in which they were started.
\<close>

definition handleDynamicCheck :: "ReconciliationState \<Rightarrow> ReconciliationState" where
  "handleDynamicCheck rs = rs\<lparr>simulating := True, timeouts := timeouts rs @ [r_discrepancies rs]\<rparr>"

definition dynamicCheckTimeout ::
  "(string \<Rightarrow> string option) \<Rightarrow> ReconciliationState \<Rightarrow> ReconciliationState \<times> string list" where
  "dynamicCheckTimeout oracle rs =
     (case timeouts rs of
        [] \<Rightarrow> (rs, [])
      | captured # rest \<Rightarrow>
          let (updated, asked) = check_entries oracle captured
          in (rs\<lparr>r_discrepancies := updated, simulating := False, timeouts := rest\<rparr>, asked))"

subsection \<open>Manual classification (\<^verbatim>\<open>handleReasonChange\<close>)\<close>

text \<open>
  \<^verbatim>\<open>handleReasonChange\<close> passes an updater to \<^verbatim>\<open>setDiscrepancies\<close>, which React applies to the
  current list (\<open>reasonChanged\<close>).
\<close>

definition handleReasonChange :: "string \<Rightarrow> string \<Rightarrow> Discrepancy list \<Rightarrow> Discrepancy list" where
  "handleReasonChange i r prev = map (\<lambda>d. if d_imei d = i then d\<lparr>reason := Some r\<rparr> else d) prev"

definition reasonChanged :: "string \<Rightarrow> string \<Rightarrow> ReconciliationState \<Rightarrow> ReconciliationState" where
  "reasonChanged i r rs = rs\<lparr>r_discrepancies := handleReasonChange i r (r_discrepancies rs)\<rparr>"

subsection \<open>Submission (\<^verbatim>\<open>handleSubmit\<close>)\<close>

text \<open>
  The handler either scrolls to the element \<^verbatim>\<open>discrepancy-<imei>\<close> of the first unresolved
  entry, or calls \<^verbatim>\<open>onConfirm\<close> with the list. The text of the note field shown for the
  reason \<^verbatim>\<open>OTHER\<close> is kept by the browser only: no state of the component holds it and
  the handler does not read it.
\<close>

datatype SubmitEffect = ScrollIntoView string | OnConfirm "Discrepancy list"

definition handleSubmit :: "Discrepancy list \<Rightarrow> SubmitEffect" where
  "handleSubmit ds =
     (case List.find unresolved ds of
        Some firstUnresolved \<Rightarrow> ScrollIntoView (''discrepancy-'' @ d_imei firstUnresolved)
      | None \<Rightarrow> OnConfirm ds)"

definition pendingIssues :: "Discrepancy list \<Rightarrow> nat" where
  "pendingIssues ds = length (filter unresolved ds)"

section \<open>Persistence (\<^verbatim>\<open>saveTaskToStorage\<close>, \<^verbatim>\<open>loadTaskFromStorage\<close>)\<close>

text \<open>
  The store keeps one item, under \<^verbatim>\<open>TASK_STORAGE_KEY\<close>. An item is a JSON text; it is
  represented by the object it denotes (\<open>TaskJson\<close>: arrays and numerals, no \<^verbatim>\<open>Set\<close> and no
  number that is not finite), or \<open>Malformed\<close> for a text that \<^verbatim>\<open>JSON.parse\<close> rejects.
  \<open>quota_exceeded\<close> says that \<^verbatim>\<open>setItem\<close> throws; the \<^verbatim>\<open>catch\<close> of \<^verbatim>\<open>saveTaskToStorage\<close> then
  leaves the store as it was.
\<close>

datatype StoredText = Malformed | JsonText TaskJson

record LocalStorage =
  task_item :: "StoredText option"
  quota_exceeded :: bool

text \<open>
  \<^verbatim>\<open>JSON.stringify\<close> leaves an absent property out, writes a finite number as a numeral and
  writes \<^verbatim>\<open>NaN\<close> and the infinities as \<^verbatim>\<open>null\<close>. \<^verbatim>\<open>JSON.parse\<close> reads a numeral as the nearest
  double.
\<close>

fun stringify_count :: "ManualCount \<Rightarrow> JsonCount" where
  "stringify_count Undefined = JAbsent"
| "stringify_count Null = JNull"
| "stringify_count (Count (Num n)) = JNumber n"
| "stringify_count (Count _) = JNull"

fun parse_count :: "JsonCount \<Rightarrow> ManualCount" where
  "parse_count JAbsent = Undefined"
| "parse_count JNull = Null"
| "parse_count (JNumber n) = Count (to_double n)"

definition stringify_product :: "Product \<Rightarrow> ProductJson" where
  "stringify_product p =
     \<lparr>sku = sku p, name = name p, ptype = ptype p, price = price p, imei = imei p,
      lastCounted = lastCounted p, priority = priority p, countMethod = countMethod p,
      imageUrl = imageUrl p, manualCount = stringify_count (manualCount p)\<rparr>"

definition parse_product :: "ProductJson \<Rightarrow> Product" where
  "parse_product p =
     \<lparr>sku = sku p, name = name p, ptype = ptype p, price = price p, imei = imei p,
      lastCounted = lastCounted p, priority = priority p, countMethod = countMethod p,
      imageUrl = imageUrl p, manualCount = parse_count (manualCount p)\<rparr>"

text \<open>The replacer turns the \<^verbatim>\<open>Set\<close> under the key \<^verbatim>\<open>scannedImeis\<close> into an array.\<close>

definition stringify_task :: "Task \<Rightarrow> TaskJson" where
  "stringify_task task =
     \<lparr>task_id = task_id task, date = date task, items = map stringify_product (items task),
      status = status task, scannedImeis = Array_from (scannedImeis task),
      discrepancies = discrepancies task, lastAction = lastAction task,
      endTime = endTime task\<rparr>"

text \<open>The reviver turns the array under the key \<^verbatim>\<open>scannedImeis\<close> into a \<^verbatim>\<open>Set\<close>.\<close>

definition parse_task :: "TaskJson \<Rightarrow> Task" where
  "parse_task j =
     \<lparr>task_id = task_id j, date = date j, items = map parse_product (items j),
      status = status j, scannedImeis = new_Set (scannedImeis j),
      discrepancies = discrepancies j, lastAction = lastAction j, endTime = endTime j\<rparr>"

definition saveTaskToStorage :: "Task option \<Rightarrow> LocalStorage \<Rightarrow> LocalStorage" where
  "saveTaskToStorage task ls =
     (case task of
        None \<Rightarrow> ls\<lparr>task_item := None\<rparr>
      | Some t \<Rightarrow>
          if quota_exceeded ls then ls
          else ls\<lparr>task_item := Some (JsonText (stringify_task t))\<rparr>)"

definition loadTaskFromStorage :: "LocalStorage \<Rightarrow> Task option" where
  "loadTaskFromStorage ls =
     (case task_item ls of
        None \<Rightarrow> None
      | Some Malformed \<Rightarrow> None
      | Some (JsonText j) \<Rightarrow> Some (parse_task j))"

text \<open>
  A count that the store gives back as it was: absent, \<^verbatim>\<open>null\<close>, or a finite number.
\<close>

fun finite_count :: "ManualCount \<Rightarrow> bool" where
  "finite_count (Count (Num n)) = (to_double n = Num n)"
| "finite_count (Count _) = False"
| "finite_count _ = True"

definition finite_counts :: "Product list \<Rightarrow> bool" where
  "finite_counts its = list_all (\<lambda>it. finite_count (manualCount it)) its"

section \<open>\<^verbatim>\<open>App\<close>\<close>

datatype AppView =
  DASHBOARD | SCANNER | RECONCILIATION | SIGNATURE | REPORT_DETAIL | SIGNATURE_VIEW
  | INVENTORY_DETAIL

record AppState =
  currentTask :: "Task option"
  view :: AppView
  showConfirmModal :: bool
  localStorage :: LocalStorage

text \<open>
  Every handler runs on the state of the latest render. \<^verbatim>\<open>setCurrentTask\<close> is followed by
  the effect \<^verbatim>\<open>useEffect(() => saveTaskToStorage(currentTask), [currentTask])\<close>, so the
  state update and the write to the store form one step.
\<close>

definition setCurrentTask :: "Task option \<Rightarrow> AppState \<Rightarrow> AppState" where
  "setCurrentTask t st =
     st\<lparr>currentTask := t, localStorage := saveTaskToStorage t (localStorage st)\<rparr>"

text \<open>The clock reading \<^verbatim>\<open>new Date().toLocaleTimeString(...)\<close> is the argument \<open>now\<close>.\<close>

definition handleScan :: "string \<Rightarrow> string \<Rightarrow> AppState \<Rightarrow> AppState" where
  "handleScan now i st =
     (case currentTask st of
        None \<Rightarrow> st
      | Some task \<Rightarrow>
          let newSet = Set_add (new_Set (Array_from (scannedImeis task))) i;
              item = List.find (\<lambda>it. imei it = i) (items task);
              itemName = (case item of Some it \<Rightarrow> name it | None \<Rightarrow> ''Unknown/Extra Item'')
          in setCurrentTask
               (Some (task\<lparr>scannedImeis := newSet,
                          lastAction := Some \<lparr>la_name = itemName, la_time = now, la_code = i\<rparr>\<rparr>))
               st)"

definition handleQuantityUpdate ::
  "string \<Rightarrow> string \<Rightarrow> js_number \<Rightarrow> AppState \<Rightarrow> AppState" where
  "handleQuantityUpdate now sku' count' st =
     (case currentTask st of
        None \<Rightarrow> st
      | Some task \<Rightarrow>
          let updatedItems =
                map (\<lambda>item. if sku item = sku' then item\<lparr>manualCount := Count count'\<rparr> else item)
                  (items task);
              newSet = new_Set (Array_from (scannedImeis task));
              item = List.find (\<lambda>it. sku it = sku') (items task);
              (newSet, lastAction') =
                (case item of
                   None \<Rightarrow> (newSet, lastAction task)
                 | Some it \<Rightarrow>
                     if js_less (Num 0) count'
                     then (Set_add newSet (imei it),
                           Some \<lparr>la_name = name it, la_time = now, la_code = imei it\<rparr>)
                     else (Set_delete newSet (imei it), lastAction task))
          in setCurrentTask
               (Some (task\<lparr>items := updatedItems, scannedImeis := newSet,
                          lastAction := lastAction'\<rparr>))
               st)"

definition handleReconciliationFinish :: "Discrepancy list \<Rightarrow> AppState \<Rightarrow> AppState" where
  "handleReconciliationFinish ds st =
     (case currentTask st of
        None \<Rightarrow> st
      | Some task \<Rightarrow> (setCurrentTask (Some (task\<lparr>discrepancies := ds\<rparr>)) st)\<lparr>view := SIGNATURE\<rparr>)"

text \<open>
  \<^verbatim>\<open>handleSignatureFinish\<close> writes the final task to the store itself and sets it as the
  current task (whose effect writes it once more).
\<close>

definition handleSignatureFinish :: "AppState \<Rightarrow> AppState" where
  "handleSignatureFinish st =
     (case currentTask st of
        None \<Rightarrow> st
      | Some task \<Rightarrow>
          let finalTask = task\<lparr>status := COMPLETED\<rparr>;
              st = st\<lparr>localStorage := saveTaskToStorage (Some finalTask) (localStorage st)\<rparr>;
              st = setCurrentTask (Some finalTask) st
          in st\<lparr>view := DASHBOARD\<rparr>)"

section \<open>\<^verbatim>\<open>Scanner\<close>\<close>

subsection \<open>The lists of the ledger (\<^verbatim>\<open>useMemo\<close>)\<close>

text \<open>
  \<^verbatim>\<open>Array.prototype.sort\<close> is a stable sort. With a comparator \<open>cmp\<close>, an element moves
  behind a later one exactly when \<open>cmp\<close> is positive on the pair; insertion from the right
  computes that order.
\<close>

fun sort_insert :: "('a \<Rightarrow> 'a \<Rightarrow> int) \<Rightarrow> 'a \<Rightarrow> 'a list \<Rightarrow> 'a list" where
  "sort_insert cmp x [] = [x]"
| "sort_insert cmp x (y # ys) = (if cmp x y > 0 then y # sort_insert cmp x ys else x # y # ys)"

fun Array_sort :: "('a \<Rightarrow> 'a \<Rightarrow> int) \<Rightarrow> 'a list \<Rightarrow> 'a list" where
  "Array_sort cmp [] = []"
| "Array_sort cmp (x # xs) = sort_insert cmp x (Array_sort cmp xs)"

definition scanFirst :: "Product \<Rightarrow> Product \<Rightarrow> int" where
  "scanFirst a b =
     (if countMethod a = countMethod b then 0 else if countMethod a = SCAN then - 1 else 1)"

record Ledger =
  unscannedItems :: "Product list"
  scannedItems :: "Product list"
  overageImeis :: "string list"

text \<open>The fourth component, the floating-point \<^verbatim>\<open>progressPercent\<close>, is left out.\<close>

definition ledger :: "Task \<Rightarrow> Ledger" where
  "ledger task =
     (let scannedSet = scannedImeis task;
          unscanned = filter (\<lambda>i. \<not> Set_has scannedSet (imei i)) (items task);
          scanned = filter (\<lambda>i. Set_has scannedSet (imei i)) (items task);
          overage = filter (\<lambda>c. List.find (\<lambda>i. imei i = c) (items task) = None)
                      (Array_from scannedSet);
          unscanned = Array_sort scanFirst unscanned
      in \<lparr>unscannedItems = unscanned, scannedItems = scanned, overageImeis = overage\<rparr>)"

subsection \<open>Scan and quantity events\<close>

record ScanResult =
  code :: string
  isDuplicate :: bool

record ScannerState =
  scanResult :: "ScanResult option"
  zeroConfirmSku :: "string option"

text \<open>
  The component is mounted with \<^verbatim>\<open>task = currentTask\<close>, \<^verbatim>\<open>onScan = handleScan\<close> and
  \<^verbatim>\<open>onQuantityUpdate = handleQuantityUpdate\<close>, and only while \<^verbatim>\<open>currentTask\<close> is not null.
  Vibration is not modelled.
\<close>

definition processScan ::
  "string \<Rightarrow> string \<Rightarrow> AppState \<times> ScannerState \<Rightarrow> AppState \<times> ScannerState" where
  "processScan now c s =
     (let (st, sc) = s in
      case currentTask st of
        None \<Rightarrow> s
      | Some task \<Rightarrow>
          if Set_has (scannedImeis task) c
          then (st, sc\<lparr>scanResult := Some \<lparr>code = c, isDuplicate = True\<rparr>\<rparr>)
          else (handleScan now c st, sc\<lparr>scanResult := Some \<lparr>code = c, isDuplicate = False\<rparr>\<rparr>))"

definition handleQuantityChange ::
  "string \<Rightarrow> string \<Rightarrow> string \<Rightarrow> AppState \<times> ScannerState \<Rightarrow> AppState \<times> ScannerState" where
  "handleQuantityChange now sku' val s =
     (let (st, sc) = s; num = parseInt val in
      if val = [] \<or> num = Num 0 then (st, sc\<lparr>zeroConfirmSku := Some sku'\<rparr>)
      else if num \<noteq> NaN then (handleQuantityUpdate now sku' num st, sc)
      else s)"

definition confirmZeroQuantity ::
  "string \<Rightarrow> AppState \<times> ScannerState \<Rightarrow> AppState \<times> ScannerState" where
  "confirmZeroQuantity now s =
     (let (st, sc) = s in
      if truthy (zeroConfirmSku sc)
      then (handleQuantityUpdate now (the (zeroConfirmSku sc)) (Num 0) st,
            sc\<lparr>zeroConfirmSku := None\<rparr>)
      else s)"

definition incrementQuantity ::
  "string \<Rightarrow> string \<Rightarrow> js_number \<Rightarrow> AppState \<times> ScannerState \<Rightarrow> AppState \<times> ScannerState" where
  "incrementQuantity now sku' current s =
     (let (st, sc) = s in (handleQuantityUpdate now sku' (js_add current (Num 1)) st, sc))"

definition decrementQuantity ::
  "string \<Rightarrow> string \<Rightarrow> js_number \<Rightarrow> AppState \<times> ScannerState \<Rightarrow> AppState \<times> ScannerState" where
  "decrementQuantity now sku' current s =
     (let (st, sc) = s in
      if js_le (js_sub current (Num 1)) (Num 0) then (st, sc\<lparr>zeroConfirmSku := Some sku'\<rparr>)
      else (handleQuantityUpdate now sku' (js_sub current (Num 1)) st, sc))"

section \<open>Sample data\<close>

definition itemA :: Product where
  "itemA = \<lparr>sku = ''1000'', name = ''Phone A'', ptype = PHONE, price = 3000,
     imei = ''86542105100000'', lastCounted = ''2025-12-15'', priority = ''HIGH'',
     countMethod = SCAN, imageUrl = [], manualCount = Undefined\<rparr>"

definition itemB :: Product where
  "itemB = \<lparr>sku = ''1010'', name = ''Earbuds B'', ptype = PAD, price = 250,
     imei = ''86542105100010'', lastCounted = ''2025-12-15'', priority = ''HIGH'',
     countMethod = QUANTITY, imageUrl = [], manualCount = Undefined\<rparr>"

definition itemC :: Product where
  "itemC = \<lparr>sku = ''1001'', name = ''Phone C'', ptype = PHONE, price = 3100,
     imei = ''86542105100001'', lastCounted = ''2025-12-15'', priority = ''HIGH'',
     countMethod = SCAN, imageUrl = [], manualCount = Undefined\<rparr>"

definition itemD :: Product where
  "itemD = \<lparr>sku = ''1011'', name = ''Earbuds D'', ptype = PAD, price = 260,
     imei = ''86542105100011'', lastCounted = ''2025-12-15'', priority = ''HIGH'',
     countMethod = QUANTITY, imageUrl = [], manualCount = Undefined\<rparr>"

definition sampleTask :: "Product list \<Rightarrow> string list \<Rightarrow> Task" where
  "sampleTask its seen =
     \<lparr>task_id = ''PDD202512150001'', date = ''2025-12-15'', items = its,
      status = IN_PROGRESS, scannedImeis = new_Set seen, discrepancies = [],
      lastAction = None, endTime = None\<rparr>"

definition sampleStore :: LocalStorage where
  "sampleStore = \<lparr>task_item = None, quota_exceeded = False\<rparr>"

definition sampleApp :: "Task \<Rightarrow> AppView \<Rightarrow> AppState" where
  "sampleApp t v =
     \<lparr>currentTask = Some t, view = v, showConfirmModal = False, localStorage = sampleStore\<rparr>"

definition sampleScanner :: ScannerState where
  "sampleScanner = \<lparr>scanResult = None, zeroConfirmSku = None\<rparr>"

definition sampleReasons :: DiscrepancyReason where
  "sampleReasons = \<lparr>SALES_FLOW = ''SALES_FLOW'', TRANSFER_OUT = ''TRANSFER_OUT'',
     RETURN_WAREHOUSE = ''RETURN_WAREHOUSE'', OTHER = ''OTHER''\<rparr>"

definition sampleDiscrepancy :: "string \<Rightarrow> bool \<Rightarrow> string option \<Rightarrow> Discrepancy" where
  "sampleDiscrepancy i auto r =
     \<lparr>d_imei = i, d_sku = ''1000'', d_name = ''Phone A'', d_type = SHORTAGE, d_price = 3000,
      autoResolved = auto, reason = r\<rparr>"

definition sampleReconciliation :: ReconciliationState where
  "sampleReconciliation =
     \<lparr>r_discrepancies = [sampleDiscrepancy ''86542105100005'' False None,
                         sampleDiscrepancy ''86542105100001'' False None],
      simulating = False, timeouts = []\<rparr>"

definition sampleDiscrepancies :: "Discrepancy list" where
  "sampleDiscrepancies =
     [sampleDiscrepancy ''86542105100000'' False None,
      sampleDiscrepancy ''86542105100005'' False None,
      sampleDiscrepancy ''86542105100001'' False (Some ''OTHER''),
      sampleDiscrepancy ''86542105100002'' True (Some ''SALES_FLOW'')]"

section \<open>Lemmas about sets\<close>

lemma distinct_elements: "distinct (elements s)"
  using elements [of s] by simp

lemma Set_has_add: "Set_has (Set_add s x) y \<longleftrightarrow> y = x \<or> Set_has s y"
  by (auto simp: Set_has.rep_eq Set_add.rep_eq)

lemma Set_has_delete: "Set_has (Set_delete s x) y \<longleftrightarrow> y \<noteq> x \<and> Set_has s y"
  by (auto simp: Set_has.rep_eq Set_delete.rep_eq distinct_elements)

lemma elements_foldl_Set_add:
  "distinct xs \<Longrightarrow> set xs \<inter> set (elements s) = {} \<Longrightarrow>
   elements (foldl Set_add s xs) = elements s @ xs"
proof (induction xs arbitrary: s)
  case Nil
  then show ?case by simp
next
  case (Cons x xs)
  from Cons.prems have step: "elements (Set_add s x) = elements s @ [x]"
    by (simp add: Set_add.rep_eq)
  from Cons.prems have "elements (foldl Set_add (Set_add s x) xs) = elements (Set_add s x) @ xs"
    by (intro Cons.IH) (auto simp: step)
  with step show ?case
    by simp
qed



lemma elements_new_Set: "distinct xs \<Longrightarrow> elements (new_Set xs) = xs"
  by (simp add: new_Set_def elements_foldl_Set_add Set_empty.rep_eq)

lemma new_Set_Array_from: "new_Set (Array_from s) = s"
  by (simp add: elements_inject [symmetric] Array_from_def elements_new_Set distinct_elements)

section \<open>Discrepancy calculation: results\<close>

lemma foldl_push_shortage:
  "foldl (push_shortage task) acc xs =
   acc @ map shortage_record (filter (\<lambda>it. \<not> Set_has (scannedImeis task) (imei it)) xs)"
  by (induction xs arbitrary: acc) (simp_all add: push_shortage_def)

lemma foldl_push_overage:
  "foldl (push_overage db task) acc xs =
   acc @ map (overage_record db) (filter (\<lambda>i. i \<notin> imei ` set (items task)) xs)"
proof (induction xs arbitrary: acc)
  case Nil
  then show ?case by simp
next
  case (Cons x xs)
  have "(List.find (\<lambda>it. imei it = x) (items task) = None) = (x \<notin> imei ` set (items task))"
    by (auto simp: find_None_iff)
  with Cons show ?case
    by (simp add: push_overage_def)
qed

lemma d_type_shortage_record: "d_type (shortage_record it) = SHORTAGE"
  by (simp add: shortage_record_def)

lemma d_type_overage_record: "d_type (overage_record db i) = OVERAGE"
  by (simp add: overage_record_def Let_def)

lemma d_imei_overage_record: "d_imei (overage_record db i) = i"
  by (simp add: overage_record_def Let_def)

lemmas sample_defs = itemA_def itemB_def itemC_def itemD_def sampleTask_def sampleStore_def sampleApp_def
  sampleScanner_def sampleReasons_def sampleDiscrepancy_def sampleDiscrepancies_def

lemmas set_evals = new_Set_def Array_from_def Set_add.rep_eq Set_empty.rep_eq Set_has.rep_eq
  Set_delete.rep_eq Set_size.rep_eq

text \<open>
  Claim C1. On a task whose discrepancy list is empty, the calculator emits one \<open>SHORTAGE\<close>
  record for every item of the expectation list whose identifier is not observed, in the
  order of the list and with the item's own identifier, SKU, name and price
  (\<open>shortage_record\<close>); one \<open>OVERAGE\<close> record for every observed identifier that no item
  of the list carries, in the order of the set, with SKU, name and price from the
  catalogue, or \<^verbatim>\<open>UNKNOWN\<close>, \<^verbatim>\<open>Unlisted Item\<close> and \<open>0\<close> when the catalogue has no entry
  (\<open>overage_record\<close>); the shortages stand before the overages; no record carries an
  identifier that is both expected and observed; and no identifier has two overage
  records.
\<close>

theorem discrepancy_calculation:
  fixes db :: "Product list" and task :: Task
  defines "R \<equiv> initialDiscrepancies db task"
  assumes empty: "discrepancies task = []"
  shows "filter (\<lambda>d. d_type d = SHORTAGE) R =
           map shortage_record
             (filter (\<lambda>it. \<not> Set_has (scannedImeis task) (imei it)) (items task))
       \<and> filter (\<lambda>d. d_type d = OVERAGE) R =
           map (overage_record db)
             (filter (\<lambda>i. i \<notin> imei ` set (items task)) (Array_from (scannedImeis task)))
       \<and> R = filter (\<lambda>d. d_type d = SHORTAGE) R @ filter (\<lambda>d. d_type d = OVERAGE) R
       \<and> (\<forall>d \<in> set R. \<not> (Set_has (scannedImeis task) (d_imei d)
                            \<and> d_imei d \<in> imei ` set (items task)))
       \<and> distinct (map d_imei (filter (\<lambda>d. d_type d = OVERAGE) R))"
proof -
  let ?S = "map shortage_record
             (filter (\<lambda>it. \<not> Set_has (scannedImeis task) (imei it)) (items task))"
  let ?O = "map (overage_record db)
             (filter (\<lambda>i. i \<notin> imei ` set (items task)) (Array_from (scannedImeis task)))"
  have R: "R = ?S @ ?O"
    using empty
    by (simp add: R_def initialDiscrepancies_def foldl_push_shortage foldl_push_overage)
  have SS: "filter (\<lambda>d. d_type d = SHORTAGE) ?S = ?S"
    by (simp add: filter_map o_def d_type_shortage_record)
  have SO: "filter (\<lambda>d. d_type d = OVERAGE) ?S = []"
    by (simp add: filter_map o_def d_type_shortage_record)
  have OS: "filter (\<lambda>d. d_type d = SHORTAGE) ?O = []"
    by (simp add: filter_map o_def d_type_overage_record)
  have OO: "filter (\<lambda>d. d_type d = OVERAGE) ?O = ?O"
    by (simp add: filter_map o_def d_type_overage_record)
  have c1: "filter (\<lambda>d. d_type d = SHORTAGE) R = ?S"
    unfolding R filter_append SS OS by simp
  have c2: "filter (\<lambda>d. d_type d = OVERAGE) R = ?O"
    unfolding R filter_append SO OO by simp
  have c3: "R = filter (\<lambda>d. d_type d = SHORTAGE) R @ filter (\<lambda>d. d_type d = OVERAGE) R"
    unfolding c1 c2 by (rule R)
  have c4: "\<forall>d \<in> set R. \<not> (Set_has (scannedImeis task) (d_imei d)
                            \<and> d_imei d \<in> imei ` set (items task))"
    unfolding R by (auto simp: shortage_record_def d_imei_overage_record)
  have c5: "distinct (map d_imei (filter (\<lambda>d. d_type d = OVERAGE) R))"
    unfolding c2
    by (simp add: o_def d_imei_overage_record Array_from_def distinct_map_filter
        distinct_elements)
  from c1 c2 c3 c4 c5 show ?thesis by blast
qed

text \<open>
  Expected \<open>A\<close> and \<open>B\<close>; observed \<open>A\<close>, the catalogued \<open>C\<close> and an unknown identifier.
\<close>

theorem discrepancy_calculation_witness:
  "discrepancies (sampleTask [itemA, itemB] [''86542105100000'', ''86542105100001'', ''99999'']) = []
   \<and> initialDiscrepancies [itemA, itemB, itemC]
       (sampleTask [itemA, itemB] [''86542105100000'', ''86542105100001'', ''99999'']) =
     [\<lparr>d_imei = ''86542105100010'', d_sku = ''1010'', d_name = ''Earbuds B'',
       d_type = SHORTAGE, d_price = 250, autoResolved = False, reason = None\<rparr>,
      \<lparr>d_imei = ''86542105100001'', d_sku = ''1001'', d_name = ''Phone C'',
       d_type = OVERAGE, d_price = 3100, autoResolved = False, reason = None\<rparr>,
      \<lparr>d_imei = ''99999'', d_sku = ''UNKNOWN'', d_name = ''Unlisted Item'',
       d_type = OVERAGE, d_price = 0, autoResolved = False, reason = None\<rparr>]"
  using discrepancy_calculation
    [of "sampleTask [itemA, itemB] [''86542105100000'', ''86542105100001'', ''99999'']"
        "[itemA, itemB, itemC]"]
  by (simp add: sample_defs set_evals initialDiscrepancies_def push_shortage_def
      push_overage_def shortage_record_def overage_record_def getProductByImei_def)

section \<open>Submission: results\<close>

lemma find_Some_split:
  "List.find P xs = Some d \<Longrightarrow>
   \<exists>pre post. xs = pre @ d # post \<and> (\<forall>x \<in> set pre. \<not> P x) \<and> P d"
proof (induction xs)
  case Nil
  then show ?case by simp
next
  case (Cons x xs)
  show ?case
  proof (cases "P x")
    case True
    with Cons.prems have "x = d" by simp
    with True have "x # xs = [] @ d # xs \<and> (\<forall>y \<in> set []. \<not> P y) \<and> P d" by simp
    then show ?thesis by blast
  next
    case False
    with Cons.prems have "List.find P xs = Some d" by simp
    from Cons.IH [OF this] obtain pre post
      where "xs = pre @ d # post" "\<forall>y \<in> set pre. \<not> P y" "P d" by blast
    with False have "x # xs = (x # pre) @ d # post \<and> (\<forall>y \<in> set (x # pre). \<not> P y) \<and> P d"
      by simp
    then show ?thesis by blast
  qed
qed

lemma unresolved_iff:
  "unresolved d \<longleftrightarrow> autoResolved d = False \<and> (reason d = None \<or> reason d = Some [])"
  by (auto simp: unresolved_def truthy_def split: option.splits)

text \<open>
  Claim C2. For every discrepancy list, \<^verbatim>\<open>handleSubmit\<close> refuses (it scrolls to an entry instead
  of calling \<^verbatim>\<open>onConfirm\<close>) if and only if some entry is unresolved, that is, has
  \<open>autoResolved = False\<close> and a reason that is absent or empty (\<open>unresolved_iff\<close>). When it
  refuses, the entry it points to is the first unresolved one of the list; when it does
  not refuse, \<^verbatim>\<open>onConfirm\<close> receives the list as it is.
\<close>

theorem submit_refused_iff_unresolved:
  "((\<exists>d \<in> set ds. unresolved d) \<longleftrightarrow> (\<exists>target. handleSubmit ds = ScrollIntoView target))
   \<and> ((\<exists>d \<in> set ds. unresolved d) \<longrightarrow>
        (\<exists>pre d post. ds = pre @ d # post \<and> (\<forall>x \<in> set pre. \<not> unresolved x) \<and> unresolved d
           \<and> handleSubmit ds = ScrollIntoView (''discrepancy-'' @ d_imei d)))
   \<and> (\<not> (\<exists>d \<in> set ds. unresolved d) \<longrightarrow> handleSubmit ds = OnConfirm ds)"
proof (cases "List.find unresolved ds")
  case None
  then have none: "\<not> (\<exists>d \<in> set ds. unresolved d)"
    by (simp add: find_None_iff)
  from None have "handleSubmit ds = OnConfirm ds"
    by (simp add: handleSubmit_def)
  with none show ?thesis by simp
next
  case (Some d)
  from find_Some_split [OF Some] obtain pre post
    where split: "ds = pre @ d # post" "\<forall>x \<in> set pre. \<not> unresolved x" "unresolved d"
    by blast
  from Some have scroll: "handleSubmit ds = ScrollIntoView (''discrepancy-'' @ d_imei d)"
    by (simp add: handleSubmit_def)
  from split have some: "\<exists>d \<in> set ds. unresolved d" by auto
  from split scroll have
    "\<exists>pre d post. ds = pre @ d # post \<and> (\<forall>x \<in> set pre. \<not> unresolved x) \<and> unresolved d
       \<and> handleSubmit ds = ScrollIntoView (''discrepancy-'' @ d_imei d)"
    by blast
  with some scroll show ?thesis by simp
qed

text \<open>
  A list whose third entry is the first unresolved one, and a list without unresolved
  entries.
\<close>

theorem submit_refused_iff_unresolved_witness:
  "unresolved (sampleDiscrepancy ''103'' False None)
   \<and> handleSubmit
       [sampleDiscrepancy ''101'' True (Some ''SALES_FLOW''),
        sampleDiscrepancy ''102'' False (Some ''OTHER''),
        sampleDiscrepancy ''103'' False None,
        sampleDiscrepancy ''104'' False (Some [])] = ScrollIntoView ''discrepancy-103''
   \<and> \<not> unresolved (sampleDiscrepancy ''101'' True (Some ''SALES_FLOW''))
   \<and> \<not> unresolved (sampleDiscrepancy ''102'' False (Some ''OTHER''))
   \<and> handleSubmit
       [sampleDiscrepancy ''101'' True (Some ''SALES_FLOW''),
        sampleDiscrepancy ''102'' False (Some ''OTHER'')] =
     OnConfirm
       [sampleDiscrepancy ''101'' True (Some ''SALES_FLOW''),
        sampleDiscrepancy ''102'' False (Some ''OTHER'')]"
  using submit_refused_iff_unresolved
    [of "[sampleDiscrepancy ''101'' True (Some ''SALES_FLOW''),
          sampleDiscrepancy ''102'' False (Some ''OTHER''),
          sampleDiscrepancy ''103'' False None,
          sampleDiscrepancy ''104'' False (Some [])]"]
    submit_refused_iff_unresolved
    [of "[sampleDiscrepancy ''101'' True (Some ''SALES_FLOW''),
          sampleDiscrepancy ''102'' False (Some ''OTHER'')]"]
  by (simp add: sampleDiscrepancy_def unresolved_def truthy_def handleSubmit_def)

section \<open>Automatic reconciliation: results\<close>

lemma foldl_check_entry:
  "foldl (check_entry oracle) (updated, asked) ds =
   (updated @ map (\<lambda>d. if unresolved d \<and> truthy (oracle (d_imei d))
                        then d\<lparr>autoResolved := True, reason := oracle (d_imei d)\<rparr> else d) ds,
    asked @ map d_imei (filter unresolved ds))"
  by (induction ds arbitrary: updated asked) (simp_all add: check_entry_def Let_def)

lemma check_entries_eq:
  "check_entries oracle ds =
   (map (\<lambda>d. if unresolved d \<and> truthy (oracle (d_imei d))
              then d\<lparr>autoResolved := True, reason := oracle (d_imei d)\<rparr> else d) ds,
    map d_imei (filter unresolved ds))"
  by (simp add: check_entries_def foldl_check_entry)

text \<open>
  What the callback of the timer computes from the list it captured: the oracle is asked
  exactly for the unresolved entries of that list, in order; an unresolved entry for
  which the oracle returns a reason gets \<open>autoResolved = True\<close> and that reason; every other
  entry of that list is returned as it is; and the map applied to its own result returns
  that result.
\<close>

lemma check_entries_captured:
  fixes explain :: "string \<Rightarrow> string option" and ds :: "Discrepancy list"
  defines "R \<equiv> fst (check_entries explain ds)"
  shows "snd (check_entries explain ds) = map d_imei (filter unresolved ds)
       \<and> length R = length ds
       \<and> (\<forall>i < length ds.
            (unresolved (ds ! i) \<and> truthy (explain (d_imei (ds ! i))) \<longrightarrow>
               R ! i = (ds ! i)\<lparr>autoResolved := True, reason := explain (d_imei (ds ! i))\<rparr>)
          \<and> (unresolved (ds ! i) \<and> \<not> truthy (explain (d_imei (ds ! i))) \<longrightarrow> R ! i = ds ! i)
          \<and> (\<not> unresolved (ds ! i) \<longrightarrow> R ! i = ds ! i))
       \<and> fst (check_entries explain R) = R"
proof -
  let ?f = "\<lambda>d. if unresolved d \<and> truthy (explain (d_imei d))
              then d\<lparr>autoResolved := True, reason := explain (d_imei d)\<rparr> else d"
  have R: "R = map ?f ds"
    by (simp add: R_def check_entries_eq)
  have asked: "snd (check_entries explain ds) = map d_imei (filter unresolved ds)"
    by (simp add: check_entries_eq)
  have len: "length R = length ds"
    by (simp add: R)
  have pointwise: "\<forall>i < length ds.
            (unresolved (ds ! i) \<and> truthy (explain (d_imei (ds ! i))) \<longrightarrow>
               R ! i = (ds ! i)\<lparr>autoResolved := True, reason := explain (d_imei (ds ! i))\<rparr>)
          \<and> (unresolved (ds ! i) \<and> \<not> truthy (explain (d_imei (ds ! i))) \<longrightarrow> R ! i = ds ! i)
          \<and> (\<not> unresolved (ds ! i) \<longrightarrow> R ! i = ds ! i)"
    by (simp add: R)
  have again: "?f (?f d) = ?f d" for d
    by (simp add: unresolved_def)
  have "fst (check_entries explain R) = map ?f (map ?f ds)"
    by (simp only: check_entries_eq R fst_conv)
  also have "\<dots> = map (\<lambda>d. ?f (?f d)) ds"
    by (simp only: map_map o_def)
  also have "\<dots> = map ?f ds"
    by (simp only: again)
  finally have idem: "fst (check_entries explain R) = R"
    by (simp only: R)
  from asked len pointwise idem show ?thesis by blast
qed

text \<open>
  When no timer is pending and nothing happens between the click and the firing of its
  timer, the pass replaces the current list by the map of the current list.
\<close>

lemma undisturbed_pass:
  assumes "timeouts rs = []"
  shows "dynamicCheckTimeout explain (handleDynamicCheck rs) =
           (rs\<lparr>r_discrepancies := fst (check_entries explain (r_discrepancies rs)),
               simulating := False, timeouts := []\<rparr>,
            snd (check_entries explain (r_discrepancies rs)))"
  using assms
  by (simp add: dynamicCheckTimeout_def handleDynamicCheck_def split: prod.splits)

lemma OTHER_sampleReasons: "OTHER sampleReasons = ''OTHER''"
  by (simp add: sampleReasons_def)

lemma sample_oracle:
  "checkDynamicStatus sampleReasons ''86542105100000'' = Some ''SALES_FLOW''"
  "checkDynamicStatus sampleReasons ''86542105100005'' = None"
  "checkDynamicStatus sampleReasons ''86542105100001'' = Some ''TRANSFER_OUT''"
  "checkDynamicStatus sampleReasons ''86542105100002'' = Some ''RETURN_WAREHOUSE''"
  by code_simp+

text \<open>
  Claim C5 says that the pass never modifies an entry that is classified already. Two
  unresolved entries are shown and the pass is started; before its timer fires, the
  operator selects the reason \<^verbatim>\<open>OTHER\<close> for both. When the timer fires, the callback writes
  the map of the list it captured at the click: the first entry is back without a reason,
  and the second has the oracle's reason in place of the operator's.
\<close>

theorem reason_chosen_in_flight_is_overwritten:
  "r_discrepancies
     (reasonChanged ''86542105100001'' (OTHER sampleReasons)
       (reasonChanged ''86542105100005'' (OTHER sampleReasons)
         (handleDynamicCheck sampleReconciliation))) =
     [sampleDiscrepancy ''86542105100005'' False (Some ''OTHER''),
      sampleDiscrepancy ''86542105100001'' False (Some ''OTHER'')]
   \<and> r_discrepancies (fst (dynamicCheckTimeout (checkDynamicStatus sampleReasons)
       (reasonChanged ''86542105100001'' (OTHER sampleReasons)
         (reasonChanged ''86542105100005'' (OTHER sampleReasons)
           (handleDynamicCheck sampleReconciliation))))) =
     [sampleDiscrepancy ''86542105100005'' False None,
      sampleDiscrepancy ''86542105100001'' True (Some ''TRANSFER_OUT'')]"
  by (simp add: sampleReconciliation_def sampleDiscrepancy_def OTHER_sampleReasons
      sample_oracle handleDynamicCheck_def reasonChanged_def handleReasonChange_def
      dynamicCheckTimeout_def check_entries_eq unresolved_def truthy_def)

section \<open>Ledger lists: results\<close>

text \<open>
  The comparator is consistent (swapping the arguments negates it), so the order a stable
  sort produces with it does not depend on the sorting algorithm.
\<close>

lemma scanFirst_swap: "scanFirst b a = - scanFirst a b"
  by (cases "countMethod a"; cases "countMethod b") (simp_all add: scanFirst_def)

lemma mset_sort_insert: "mset (sort_insert cmp x xs) = add_mset x (mset xs)"
  by (induction xs) simp_all

lemma mset_Array_sort: "mset (Array_sort cmp xs) = mset xs"
  by (induction xs) (simp_all add: mset_sort_insert)

lemma sort_insert_SCAN: "countMethod x = SCAN \<Longrightarrow> sort_insert scanFirst x ys = x # ys"
  by (cases ys) (simp_all add: scanFirst_def)

lemma sort_insert_QUANTITY:
  "countMethod x = QUANTITY \<Longrightarrow> \<forall>y \<in> set S. countMethod y = SCAN \<Longrightarrow>
   \<forall>y \<in> set Q. countMethod y = QUANTITY \<Longrightarrow>
   sort_insert scanFirst x (S @ Q) = S @ x # Q"
proof (induction S)
  case Nil
  then show ?case by (cases Q) (simp_all add: scanFirst_def)
next
  case (Cons y S)
  then show ?case by (simp add: scanFirst_def)
qed

lemma Array_sort_scanFirst:
  "Array_sort scanFirst xs =
   filter (\<lambda>i. countMethod i = SCAN) xs @ filter (\<lambda>i. countMethod i = QUANTITY) xs"
proof (induction xs)
  case Nil
  then show ?case by simp
next
  case (Cons x xs)
  show ?case
  proof (cases "countMethod x")
    case SCAN
    with Cons.IH show ?thesis by (simp add: sort_insert_SCAN)
  next
    case QUANTITY
    with Cons.IH show ?thesis by (simp add: sort_insert_QUANTITY)
  qed
qed

lemma mset_filter_countMethod:
  "mset (filter (\<lambda>i. countMethod i = SCAN) xs) + mset (filter (\<lambda>i. countMethod i = QUANTITY) xs)
   = mset xs"
proof (induction xs)
  case Nil
  then show ?case by simp
next
  case (Cons x xs)
  then show ?case by (cases "countMethod x") simp_all
qed

text \<open>
  Claim C7. The scanned list is the sublist of the expectation list whose identifiers are
  observed; the unscanned list consists of the remaining items, the \<open>SCAN\<close> items first and
  the \<open>QUANTITY\<close> items after them, each group in the order of the expectation list;
  together the two lists hold every item of the expectation list exactly once; and the
  overage list holds exactly the observed identifiers that no item of the expectation
  list carries, each once.
\<close>

theorem ledger_partition:
  fixes task :: Task
  defines "L \<equiv> ledger task"
  defines "U \<equiv> filter (\<lambda>i. \<not> Set_has (scannedImeis task) (imei i)) (items task)"
  shows "scannedItems L = filter (\<lambda>i. Set_has (scannedImeis task) (imei i)) (items task)
       \<and> unscannedItems L =
           filter (\<lambda>i. countMethod i = SCAN) U @ filter (\<lambda>i. countMethod i = QUANTITY) U
       \<and> mset (unscannedItems L) + mset (scannedItems L) = mset (items task)
       \<and> (\<forall>i \<in> set (unscannedItems L). \<not> Set_has (scannedImeis task) (imei i))
       \<and> (\<forall>i \<in> set (scannedItems L). Set_has (scannedImeis task) (imei i))
       \<and> overageImeis L =
           filter (\<lambda>c. c \<notin> imei ` set (items task)) (Array_from (scannedImeis task))
       \<and> set (overageImeis L) = {c. Set_has (scannedImeis task) c \<and> c \<notin> imei ` set (items task)}
       \<and> distinct (overageImeis L)"
proof -
  have none: "(List.find (\<lambda>i. imei i = c) (items task) = None) = (c \<notin> imei ` set (items task))"
    for c
    by (auto simp: find_None_iff)
  have s: "scannedItems L = filter (\<lambda>i. Set_has (scannedImeis task) (imei i)) (items task)"
    by (simp add: L_def ledger_def Let_def)
  have u: "unscannedItems L =
           filter (\<lambda>i. countMethod i = SCAN) U @ filter (\<lambda>i. countMethod i = QUANTITY) U"
    by (simp add: L_def U_def ledger_def Let_def Array_sort_scanFirst)
  have o: "overageImeis L =
           filter (\<lambda>c. c \<notin> imei ` set (items task)) (Array_from (scannedImeis task))"
    by (simp add: L_def ledger_def Let_def none)
  have "mset (unscannedItems L) = mset U"
    unfolding u mset_append by (rule mset_filter_countMethod)
  then have m: "mset (unscannedItems L) + mset (scannedItems L) = mset (items task)"
    unfolding s U_def by (simp add: union_commute)
  have su: "set (unscannedItems L) = set U"
    unfolding u by (auto intro: CountMethod.exhaust)
  have bu: "\<forall>i \<in> set (unscannedItems L). \<not> Set_has (scannedImeis task) (imei i)"
    unfolding su U_def by simp
  have bs: "\<forall>i \<in> set (scannedItems L). Set_has (scannedImeis task) (imei i)"
    unfolding s by simp
  have so: "set (overageImeis L) =
            {c. Set_has (scannedImeis task) c \<and> c \<notin> imei ` set (items task)}"
    unfolding o by (auto simp: Array_from_def Set_has.rep_eq)
  have d: "distinct (overageImeis L)"
    unfolding o by (simp add: Array_from_def distinct_elements)
  from s u m bu bs o so d show ?thesis by blast
qed

text \<open>
  Expected \<open>B\<close>, \<open>A\<close>, \<open>D\<close>, \<open>C\<close> (\<open>B\<close> and \<open>D\<close> counted by quantity); observed \<open>A\<close> and an
  identifier that is not expected.
\<close>

theorem ledger_partition_witness:
  "ledger (sampleTask [itemB, itemA, itemD, itemC] [''86542105100000'', ''777'']) =
     \<lparr>unscannedItems = [itemC, itemB, itemD], scannedItems = [itemA],
      overageImeis = [''777'']\<rparr>"
  using ledger_partition
    [of "sampleTask [itemB, itemA, itemD, itemC] [''86542105100000'', ''777'']"]
  by (simp add: sample_defs set_evals ledger_def scanFirst_def)

section \<open>Persistence: results\<close>

lemma to_double_small: "\<bar>n\<bar> < 2 ^ 53 \<Longrightarrow> to_double n = Num n"
  by (auto simp: to_double_def round_to_double_def Let_def)

lemma parse_stringify_count: "finite_count c \<Longrightarrow> parse_count (stringify_count c) = c"
  by (induction c rule: finite_count.induct) simp_all

lemma parse_stringify_product:
  "finite_count (manualCount p) \<Longrightarrow> parse_product (stringify_product p) = p"
  by (simp add: parse_product_def stringify_product_def parse_stringify_count)

lemma parse_stringify_products:
  "finite_counts its \<Longrightarrow> map (parse_product \<circ> stringify_product) its = its"
  by (induction its) (simp_all add: finite_counts_def parse_stringify_product)

lemma parse_stringify:
  "finite_counts (items task) \<Longrightarrow> parse_task (stringify_task task) = task"
  by (simp add: parse_task_def stringify_task_def new_Set_Array_from parse_stringify_products)



lemmas handler_defs = processScan_def handleScan_def setCurrentTask_def saveTaskToStorage_def
  stringify_task_def stringify_product_def handleQuantityChange_def handleQuantityUpdate_def

lemmas load_defs = loadTaskFromStorage_def parse_task_def parse_product_def




section \<open>Scan events: results\<close>

lemma handleScan_task:
  "currentTask st = Some task \<Longrightarrow>
   currentTask (handleScan now c st) =
     Some (task\<lparr>scannedImeis := Set_add (scannedImeis task) c,
               lastAction := Some \<lparr>la_name = (case List.find (\<lambda>it. imei it = c) (items task) of
                                              Some it \<Rightarrow> name it | None \<Rightarrow> ''Unknown/Extra Item''),
                                   la_time = now, la_code = c\<rparr>\<rparr>)"
  by (simp add: handleScan_def setCurrentTask_def Let_def new_Set_Array_from)

lemma Set_size_add: "\<not> Set_has s x \<Longrightarrow> Set_size (Set_add s x) = Set_size s + 1"
  by (simp add: Set_has.rep_eq Set_size.rep_eq Set_add.rep_eq)

text \<open>
  Claim C10. A scan of an identifier that is in the observed set leaves the state of the
  application as it is: the current task (observed set, items, last action) and the store
  are unchanged. Only the scan result of the component changes: it reports the code as a
  duplicate.
\<close>

theorem duplicate_scan_no_effect:
  assumes "currentTask st = Some task" and "Set_has (scannedImeis task) c"
  shows "processScan now c (st, sc) =
           (st, sc\<lparr>scanResult := Some \<lparr>code = c, isDuplicate = True\<rparr>\<rparr>)"
  using assms by (simp add: processScan_def)

text \<open>
  Both items observed; the second is scanned again.
\<close>

theorem duplicate_scan_no_effect_witness:
  "currentTask (sampleApp (sampleTask [itemA, itemB] [''86542105100000'', ''86542105100010''])
      SCANNER) = Some (sampleTask [itemA, itemB] [''86542105100000'', ''86542105100010''])
   \<and> Set_has (scannedImeis (sampleTask [itemA, itemB] [''86542105100000'', ''86542105100010'']))
        ''86542105100010''
   \<and> processScan ''10:00:00'' ''86542105100010''
        (sampleApp (sampleTask [itemA, itemB] [''86542105100000'', ''86542105100010'']) SCANNER,
         sampleScanner) =
       (sampleApp (sampleTask [itemA, itemB] [''86542105100000'', ''86542105100010'']) SCANNER,
        sampleScanner\<lparr>scanResult := Some \<lparr>code = ''86542105100010'', isDuplicate = True\<rparr>\<rparr>)"
  using duplicate_scan_no_effect
    [of "sampleApp (sampleTask [itemA, itemB] [''86542105100000'', ''86542105100010'']) SCANNER"
        "sampleTask [itemA, itemB] [''86542105100000'', ''86542105100010'']"
        "''86542105100010''" "''10:00:00''" sampleScanner]
  by (simp add: sample_defs set_evals)

text \<open>
  Claim C3, as stated for every task and identifier, fails for an identifier that is
  observed already: the first of the two scans is reported as a duplicate, and the
  observed set is the same after the two scans.
\<close>

theorem scan_twice_observed_before:
  "processScan ''10:00:00'' ''86542105100000''
     (sampleApp (sampleTask [itemA] [''86542105100000'']) SCANNER, sampleScanner) =
     (sampleApp (sampleTask [itemA] [''86542105100000'']) SCANNER,
      sampleScanner\<lparr>scanResult := Some \<lparr>code = ''86542105100000'', isDuplicate = True\<rparr>\<rparr>)
   \<and> fst (processScan ''10:00:05'' ''86542105100000''
        (processScan ''10:00:00'' ''86542105100000''
          (sampleApp (sampleTask [itemA] [''86542105100000'']) SCANNER, sampleScanner))) =
       sampleApp (sampleTask [itemA] [''86542105100000'']) SCANNER"
  by (simp add: sample_defs set_evals processScan_def)

text \<open>
  Claim C3, amended. For every task and every identifier that is not yet in its observed
  set, two scans of the identifier report first a non-duplicate and then a duplicate; the
  first scan adds the identifier to the observed set, whose size grows by one, and the
  second scan leaves the state of the application as the first left it.
\<close>

theorem scan_twice:
  assumes task: "currentTask st = Some task" and fresh: "\<not> Set_has (scannedImeis task) c"
  shows "scanResult (snd (processScan now1 c (st, sc))) = Some \<lparr>code = c, isDuplicate = False\<rparr>
       \<and> scanResult (snd (processScan now2 c (processScan now1 c (st, sc)))) =
           Some \<lparr>code = c, isDuplicate = True\<rparr>
       \<and> fst (processScan now2 c (processScan now1 c (st, sc))) =
           fst (processScan now1 c (st, sc))
       \<and> (\<exists>task2. currentTask (fst (processScan now1 c (st, sc))) = Some task2
             \<and> Set_size (scannedImeis task2) = Set_size (scannedImeis task) + 1
             \<and> (\<forall>x. Set_has (scannedImeis task2) x \<longleftrightarrow> x = c \<or> Set_has (scannedImeis task) x))"
proof -
  let ?st1 = "handleScan now1 c st"
  let ?sc1 = "sc\<lparr>scanResult := Some \<lparr>code = c, isDuplicate = False\<rparr>\<rparr>"
  let ?sc2 = "?sc1\<lparr>scanResult := Some \<lparr>code = c, isDuplicate = True\<rparr>\<rparr>"
  let ?task2 = "task\<lparr>scannedImeis := Set_add (scannedImeis task) c,
               lastAction := Some \<lparr>la_name = (case List.find (\<lambda>it. imei it = c) (items task) of
                                              Some it \<Rightarrow> name it | None \<Rightarrow> ''Unknown/Extra Item''),
                                   la_time = now1, la_code = c\<rparr>\<rparr>"
  from task fresh have first: "processScan now1 c (st, sc) = (?st1, ?sc1)"
    by (simp add: processScan_def)
  from task have t2: "currentTask ?st1 = Some ?task2"
    by (rule handleScan_task)
  have has: "Set_has (scannedImeis ?task2) c"
    by (simp add: Set_has_add)
  from t2 has have second: "processScan now2 c (?st1, ?sc1) = (?st1, ?sc2)"
    by (simp add: processScan_def)
  from fresh have size: "Set_size (scannedImeis ?task2) = Set_size (scannedImeis task) + 1"
    by (simp add: Set_size_add)
  have mem: "\<forall>x. Set_has (scannedImeis ?task2) x \<longleftrightarrow> x = c \<or> Set_has (scannedImeis task) x"
    by (simp add: Set_has_add)
  from t2 size mem have ex: "\<exists>task2. currentTask ?st1 = Some task2
             \<and> Set_size (scannedImeis task2) = Set_size (scannedImeis task) + 1
             \<and> (\<forall>x. Set_has (scannedImeis task2) x \<longleftrightarrow> x = c \<or> Set_has (scannedImeis task) x)"
    by blast
  show ?thesis
    unfolding first second using ex by simp
qed

text \<open>
  Item \<open>B\<close> observed; item \<open>A\<close> is scanned twice.
\<close>

theorem scan_twice_witness:
  "currentTask (sampleApp (sampleTask [itemA, itemB] [''86542105100010'']) SCANNER) =
     Some (sampleTask [itemA, itemB] [''86542105100010''])
   \<and> \<not> Set_has (scannedImeis (sampleTask [itemA, itemB] [''86542105100010''])) ''86542105100000''
   \<and> scanResult (snd (processScan ''10:00:00'' ''86542105100000''
        (sampleApp (sampleTask [itemA, itemB] [''86542105100010'']) SCANNER, sampleScanner))) =
       Some \<lparr>code = ''86542105100000'', isDuplicate = False\<rparr>
   \<and> scanResult (snd (processScan ''10:00:05'' ''86542105100000''
        (processScan ''10:00:00'' ''86542105100000''
          (sampleApp (sampleTask [itemA, itemB] [''86542105100010'']) SCANNER, sampleScanner)))) =
       Some \<lparr>code = ''86542105100000'', isDuplicate = True\<rparr>
   \<and> map_option (Array_from \<circ> scannedImeis)
        (currentTask (fst (processScan ''10:00:05'' ''86542105100000''
          (processScan ''10:00:00'' ''86542105100000''
            (sampleApp (sampleTask [itemA, itemB] [''86542105100010'']) SCANNER,
             sampleScanner))))) =
       Some [''86542105100010'', ''86542105100000'']"
  using scan_twice
    [of "sampleApp (sampleTask [itemA, itemB] [''86542105100010'']) SCANNER"
        "sampleTask [itemA, itemB] [''86542105100010'']" "''86542105100000''"
        "''10:00:00''" sampleScanner "''10:00:05''"]
  by (simp add: sample_defs set_evals handler_defs Let_def)

section \<open>Signature: results\<close>

text \<open>
  Claim C8, as stated, fails where it says that a completion time is recorded: after
  \<^verbatim>\<open>handleSignatureFinish\<close> the status is \<open>COMPLETED\<close> and \<^verbatim>\<open>endTime\<close> is still absent.
\<close>

theorem signature_finish_records_no_time:
  "map_option status (currentTask (handleSignatureFinish
      (sampleApp (sampleTask [itemA] [''86542105100000'']) SIGNATURE))) = Some COMPLETED
   \<and> map_option endTime (currentTask (handleSignatureFinish
      (sampleApp (sampleTask [itemA] [''86542105100000'']) SIGNATURE))) = Some None"
  by (simp add: handleSignatureFinish_def setCurrentTask_def sampleApp_def sampleTask_def
      Let_def)

text \<open>
  Claim C8, amended. With a current task, \<^verbatim>\<open>handleSignatureFinish\<close> sets the status of the
  task to \<open>COMPLETED\<close> and changes no other field (\<^verbatim>\<open>endTime\<close> stays as it was), returns to
  the dashboard, and, when the store accepts the write, leaves the text of the completed
  task in the store; that text is read back as the completed task when the counts of the
  task are finite.
\<close>

theorem signature_finish:
  assumes "currentTask st = Some task"
  shows "currentTask (handleSignatureFinish st) = Some (task\<lparr>status := COMPLETED\<rparr>)
       \<and> map_option endTime (currentTask (handleSignatureFinish st)) = Some (endTime task)
       \<and> view (handleSignatureFinish st) = DASHBOARD
       \<and> (\<not> quota_exceeded (localStorage st) \<longrightarrow>
            task_item (localStorage (handleSignatureFinish st)) =
              Some (JsonText (stringify_task (task\<lparr>status := COMPLETED\<rparr>))))
       \<and> (\<not> quota_exceeded (localStorage st) \<and> finite_counts (items task) \<longrightarrow>
            loadTaskFromStorage (localStorage (handleSignatureFinish st)) =
              Some (task\<lparr>status := COMPLETED\<rparr>))"
proof -
  let ?final = "task\<lparr>status := COMPLETED\<rparr>"
  from assms have cur: "currentTask (handleSignatureFinish st) = Some ?final"
    by (simp add: handleSignatureFinish_def setCurrentTask_def Let_def)
  from assms have v: "view (handleSignatureFinish st) = DASHBOARD"
    by (simp add: handleSignatureFinish_def setCurrentTask_def Let_def)
  from assms have written: "\<not> quota_exceeded (localStorage st) \<longrightarrow>
      task_item (localStorage (handleSignatureFinish st)) = Some (JsonText (stringify_task ?final))"
    by (simp add: handleSignatureFinish_def setCurrentTask_def Let_def saveTaskToStorage_def)
  have reread: "finite_counts (items task) \<longrightarrow> parse_task (stringify_task ?final) = ?final"
    by (simp add: parse_stringify)
  from written reread have loaded: "\<not> quota_exceeded (localStorage st) \<and> finite_counts (items task) \<longrightarrow>
      loadTaskFromStorage (localStorage (handleSignatureFinish st)) = Some ?final"
    by (simp add: loadTaskFromStorage_def)
  from cur v written loaded show ?thesis by simp
qed

text \<open>
  A task with one of two items observed, at the signature screen.
\<close>

theorem signature_finish_witness:
  "currentTask (sampleApp (sampleTask [itemA, itemB] [''86542105100000'']) SIGNATURE) =
     Some (sampleTask [itemA, itemB] [''86542105100000''])
   \<and> \<not> quota_exceeded
        (localStorage (sampleApp (sampleTask [itemA, itemB] [''86542105100000'']) SIGNATURE))
   \<and> finite_counts (items (sampleTask [itemA, itemB] [''86542105100000'']))
   \<and> currentTask (handleSignatureFinish
        (sampleApp (sampleTask [itemA, itemB] [''86542105100000'']) SIGNATURE)) =
       Some ((sampleTask [itemA, itemB] [''86542105100000''])\<lparr>status := COMPLETED\<rparr>)
   \<and> task_item (localStorage (handleSignatureFinish
        (sampleApp (sampleTask [itemA, itemB] [''86542105100000'']) SIGNATURE))) =
       Some (JsonText (stringify_task
         ((sampleTask [itemA, itemB] [''86542105100000''])\<lparr>status := COMPLETED\<rparr>)))
   \<and> loadTaskFromStorage (localStorage (handleSignatureFinish
        (sampleApp (sampleTask [itemA, itemB] [''86542105100000'']) SIGNATURE))) =
       Some ((sampleTask [itemA, itemB] [''86542105100000''])\<lparr>status := COMPLETED\<rparr>)
   \<and> view (handleSignatureFinish
        (sampleApp (sampleTask [itemA, itemB] [''86542105100000'']) SIGNATURE)) = DASHBOARD"
  using signature_finish
    [of "sampleApp (sampleTask [itemA, itemB] [''86542105100000'']) SIGNATURE"
        "sampleTask [itemA, itemB] [''86542105100000'']"]
  by (simp add: sampleApp_def sampleStore_def sampleTask_def itemA_def itemB_def
      finite_counts_def)

section \<open>Quantity entry: results\<close>

text \<open>
  The task after \<^verbatim>\<open>handleQuantityUpdate\<close> for a SKU of the expectation list. The identifier
  of the first item with that SKU stands for the SKU in the observed set.
\<close>

lemma handleQuantityUpdate_task:
  assumes "currentTask st = Some task" and "List.find (\<lambda>it. sku it = s) (items task) = Some it"
  shows "currentTask (handleQuantityUpdate now s n st) =
     Some (task\<lparr>items := map (\<lambda>item. if sku item = s then item\<lparr>manualCount := Count n\<rparr> else item)
                            (items task),
               scannedImeis := (if js_less (Num 0) n then Set_add (scannedImeis task) (imei it)
                                else Set_delete (scannedImeis task) (imei it)),
               lastAction := (if js_less (Num 0) n
                              then Some \<lparr>la_name = name it, la_time = now, la_code = imei it\<rparr>
                              else lastAction task)\<rparr>)"
  using assms
  by (simp add: handleQuantityUpdate_def setCurrentTask_def Let_def new_Set_Array_from)

text \<open>
  A positive count adds the identifier to the observed set and sets the count of every
  item of the SKU; the count \<open>0\<close> removes the identifier.
\<close>

lemma js_less_zero_asym: "js_less n (Num 0) \<Longrightarrow> \<not> js_less (Num 0) n"
  by (cases n) simp_all

lemma quantity_positive_adds:
  assumes task: "currentTask st = Some task"
    and item: "List.find (\<lambda>it. sku it = s) (items task) = Some it"
    and pos: "js_less (Num 0) n"
  shows "\<exists>task'. currentTask (handleQuantityUpdate now s n st) = Some task'
           \<and> (\<forall>x. Set_has (scannedImeis task') x \<longleftrightarrow> x = imei it \<or> Set_has (scannedImeis task) x)
           \<and> (\<forall>item \<in> set (items task'). sku item = s \<longrightarrow> manualCount item = Count n)"
proof -
  let ?items = "map (\<lambda>item. if sku item = s then item\<lparr>manualCount := Count n\<rparr> else item)
                  (items task)"
  let ?set = "Set_add (scannedImeis task) (imei it)"
  from handleQuantityUpdate_task [OF task item, of now "n"]
  obtain task' where t: "currentTask (handleQuantityUpdate now s n st) = Some task'"
    and i: "items task' = ?items" and m: "scannedImeis task' = ?set"
    using pos by simp
  have a: "\<forall>x. Set_has ?set x \<longleftrightarrow> x = imei it \<or> Set_has (scannedImeis task) x"
    by (simp add: Set_has_add)
  have b: "\<forall>item \<in> set ?items. sku item = s \<longrightarrow> manualCount item = Count n"
    by (simp only: set_map ball_simps) simp
  have a': "\<forall>x. Set_has (scannedImeis task') x \<longleftrightarrow> x = imei it \<or> Set_has (scannedImeis task) x"
    unfolding m by (rule a)
  have b': "\<forall>item \<in> set (items task'). sku item = s \<longrightarrow> manualCount item = Count n"
    unfolding i by (rule b)
  from t a' b' show ?thesis
    by (intro exI [of _ task'] conjI)
qed

lemma quantity_zero_removes:
  assumes task: "currentTask st = Some task"
    and item: "List.find (\<lambda>it. sku it = s) (items task) = Some it"
  shows "\<exists>task'. currentTask (handleQuantityUpdate now s (Num 0) st) = Some task'
           \<and> (\<forall>x. Set_has (scannedImeis task') x \<longleftrightarrow> x \<noteq> imei it \<and> Set_has (scannedImeis task) x)
           \<and> (\<forall>item \<in> set (items task'). sku item = s \<longrightarrow> manualCount item = Count (Num 0))"
proof -
  let ?items = "map (\<lambda>item. if sku item = s then item\<lparr>manualCount := Count (Num 0)\<rparr> else item)
                  (items task)"
  let ?set = "Set_delete (scannedImeis task) (imei it)"
  from handleQuantityUpdate_task [OF task item, of now "Num 0"]
  obtain task' where t: "currentTask (handleQuantityUpdate now s (Num 0) st) = Some task'"
    and i: "items task' = ?items" and m: "scannedImeis task' = ?set"
    by simp
  have a: "\<forall>x. Set_has ?set x \<longleftrightarrow> x \<noteq> imei it \<and> Set_has (scannedImeis task) x"
    by (simp add: Set_has_delete)
  have b: "\<forall>item \<in> set ?items. sku item = s \<longrightarrow> manualCount item = Count (Num 0)"
    by (simp only: set_map ball_simps) simp
  have a': "\<forall>x. Set_has (scannedImeis task') x \<longleftrightarrow> x \<noteq> imei it \<and> Set_has (scannedImeis task) x"
    unfolding m by (rule a)
  have b': "\<forall>item \<in> set (items task'). sku item = s \<longrightarrow> manualCount item = Count (Num 0)"
    unfolding i by (rule b)
  from t a' b' show ?thesis
    by (intro exI [of _ task'] conjI)
qed

text \<open>
  A negative count (a negative number or the negative infinity) is handled like \<open>0\<close>, and
  stored.
\<close>

lemma quantity_negative_applied:
  assumes task: "currentTask st = Some task"
    and item: "List.find (\<lambda>it. sku it = s) (items task) = Some it"
    and pos: "js_less n (Num 0)"
  shows "\<exists>task'. currentTask (handleQuantityUpdate now s n st) = Some task'
           \<and> (\<forall>x. Set_has (scannedImeis task') x \<longleftrightarrow> x \<noteq> imei it \<and> Set_has (scannedImeis task) x)
           \<and> (\<forall>item \<in> set (items task'). sku item = s \<longrightarrow> manualCount item = Count n)"
proof -
  let ?items = "map (\<lambda>item. if sku item = s then item\<lparr>manualCount := Count n\<rparr> else item)
                  (items task)"
  let ?set = "Set_delete (scannedImeis task) (imei it)"
  from handleQuantityUpdate_task [OF task item, of now "n"]
  obtain task' where t: "currentTask (handleQuantityUpdate now s n st) = Some task'"
    and i: "items task' = ?items" and m: "scannedImeis task' = ?set"
    using js_less_zero_asym [OF pos] by simp
  have a: "\<forall>x. Set_has ?set x \<longleftrightarrow> x \<noteq> imei it \<and> Set_has (scannedImeis task) x"
    by (simp add: Set_has_delete)
  have b: "\<forall>item \<in> set ?items. sku item = s \<longrightarrow> manualCount item = Count n"
    by (simp only: set_map ball_simps) simp
  have a': "\<forall>x. Set_has (scannedImeis task') x \<longleftrightarrow> x \<noteq> imei it \<and> Set_has (scannedImeis task) x"
    unfolding m by (rule a)
  have b': "\<forall>item \<in> set (items task'). sku item = s \<longrightarrow> manualCount item = Count n"
    unfolding i by (rule b)
  from t a' b' show ?thesis
    by (intro exI [of _ task'] conjI)
qed

lemma parseInt_minus_5: "parseInt ''-5'' = Num (- 5)"
  by code_simp

text \<open>
  Claim C4 says that a negative count is rejected with no effect. The text \<^verbatim>\<open>-5\<close> entered
  in the quantity field of SKU \<^verbatim>\<open>1010\<close>, whose item \<open>B\<close> is observed with a count of \<open>5\<close>,
  reaches \<^verbatim>\<open>handleQuantityUpdate\<close>: the item gets the count \<open>-5\<close>, its identifier leaves the
  observed set, and the store holds the changed task.
\<close>

theorem negative_quantity_is_applied:
  "currentTask (fst (handleQuantityChange ''10:00:00'' ''1010'' ''-5''
      (sampleApp (sampleTask [itemA, itemB\<lparr>manualCount := Count (Num 5)\<rparr>]
                   [''86542105100000'', ''86542105100010'']) SCANNER,
       sampleScanner))) =
     Some (sampleTask [itemA, itemB\<lparr>manualCount := Count (Num (- 5))\<rparr>] [''86542105100000''])
   \<and> loadTaskFromStorage (localStorage (fst (handleQuantityChange ''10:00:00'' ''1010'' ''-5''
      (sampleApp (sampleTask [itemA, itemB\<lparr>manualCount := Count (Num 5)\<rparr>]
                   [''86542105100000'', ''86542105100010'']) SCANNER,
       sampleScanner)))) =
     Some (sampleTask [itemA, itemB\<lparr>manualCount := Count (Num (- 5))\<rparr>] [''86542105100000''])"
  by (simp add: sample_defs set_evals handler_defs load_defs parseInt_minus_5 Let_def
      to_double_small elements_inject [symmetric])

section \<open>Manual classification: results\<close>

lemma classified_entry_is_confirmed:
  "r \<noteq> [] \<Longrightarrow> handleSubmit (handleReasonChange (d_imei d) r [d]) = OnConfirm [d\<lparr>reason := Some r\<rparr>]"
  by (simp add: handleSubmit_def handleReasonChange_def unresolved_def truthy_def)

text \<open>
  Claim C9 says that a submission with an entry classified \<^verbatim>\<open>OTHER\<close> and no note is
  rejected. \<^verbatim>\<open>handleSubmit\<close> has no note to look at: after the operator selects \<^verbatim>\<open>OTHER\<close>
  for the only entry and leaves the note field empty, the submission calls \<^verbatim>\<open>onConfirm\<close>.
\<close>

theorem other_reason_without_note_is_confirmed:
  "handleSubmit (handleReasonChange ''103'' (OTHER sampleReasons)
      [sampleDiscrepancy ''103'' False None]) =
     OnConfirm [sampleDiscrepancy ''103'' False (Some (OTHER sampleReasons))]"
  by (simp add: handleSubmit_def handleReasonChange_def unresolved_def truthy_def
      sampleDiscrepancy_def sampleReasons_def)

end
